theory Spec2Isabelle
  imports Main "HOL-Library.Sublist"
begin

section \<open>Domain entities\<close>

text \<open>
  A \<^verbatim>\<open>uuid.UUID\<close> is used by the program as an opaque identifier only (it is generated,
  stored and compared for equality), so it is a natural number here; \<^verbatim>\<open>uuid.Nil\<close>
  is 0. A \<^verbatim>\<open>time.Time\<close> is a natural number of ticks and Go's zero time is 0.
  \<^verbatim>\<open>Quantity\<close> is a Go \<^verbatim>\<open>int\<close>; the program never does arithmetic on it (it is
  stored, copied and compared with 0), so it is an \<open>int\<close>.
\<close>

type_synonym uuid = nat
type_synonym time = nat

definition uuid_Nil :: uuid where
  "uuid_Nil = 0"

record Item =
  ID :: uuid
  ShoppingListID :: uuid
  Name :: string
  Quantity :: int
  Completed :: bool
  CreatedAt :: time
  UpdatedAt :: time

record ShoppingList =
  ID :: uuid
  Name :: string
  Description :: string
  CreatedAt :: time
  UpdatedAt :: time
  Items :: "Item list"

text \<open>The sentinel errors of \<^verbatim>\<open>errors.go\<close>, the errors of the ORM, and Go's \<^verbatim>\<open>error\<close>
  interface as their sum. An ORM error is a value of another package, so it is never equal
  to a sentinel of the domain.\<close>

datatype gorm_error = ErrRecordNotFound | DriverError string

datatype error =
    ErrShoppingListNotFound
  | ErrItemNotFound
  | ErrInvalidInput
  | ErrDuplicateItem
  | GormError gorm_error

fun Error_msg :: "error \<Rightarrow> string" where
  "Error_msg ErrShoppingListNotFound = ''shopping list not found''"
| "Error_msg ErrItemNotFound = ''item not found''"
| "Error_msg ErrInvalidInput = ''invalid input''"
| "Error_msg ErrDuplicateItem = ''item already exists''"
| "Error_msg (GormError ErrRecordNotFound) = ''record not found''"
| "Error_msg (GormError (DriverError m)) = m"

subsection \<open>Identifier generation\<close>

text \<open>
  \<^verbatim>\<open>uuid.New()\<close> reads the process-wide random source. The source is an infinite
  sequence of identifiers and a read position; each call returns the identifier at the
  position and advances it by one.
\<close>

record uuid_gen =
  stream :: "nat \<Rightarrow> uuid"
  pos :: nat

definition uuid_New :: "uuid_gen \<Rightarrow> uuid \<times> uuid_gen" where
  "uuid_New g = (stream g (pos g), g\<lparr>pos := Suc (pos g)\<rparr>)"

subsection \<open>Item\<close>

definition NewItem :: "uuid_gen \<Rightarrow> string \<Rightarrow> int \<Rightarrow> Item \<times> uuid_gen" where
  "NewItem g name quantity =
     (let (u, g') = uuid_New g
      in (\<lparr>Item.ID = u, ShoppingListID = uuid_Nil, Name = name, Quantity = quantity,
           Completed = False, CreatedAt = 0, UpdatedAt = 0\<rparr>, g'))"

definition MarkCompleted :: "Item \<Rightarrow> Item" where
  "MarkCompleted i = i\<lparr>Completed := True\<rparr>"

definition MarkIncomplete :: "Item \<Rightarrow> Item" where
  "MarkIncomplete i = i\<lparr>Completed := False\<rparr>"

definition UpdateQuantity :: "Item \<Rightarrow> int \<Rightarrow> Item" where
  "UpdateQuantity i quantity = i\<lparr>Quantity := quantity\<rparr>"

subsection \<open>ShoppingList\<close>

definition NewShoppingList :: "uuid_gen \<Rightarrow> string \<Rightarrow> string \<Rightarrow> ShoppingList \<times> uuid_gen" where
  "NewShoppingList g name description =
     (let (u, g') = uuid_New g
      in (\<lparr>ShoppingList.ID = u, Name = name, Description = description,
           CreatedAt = 0, UpdatedAt = 0, Items = []\<rparr>, g'))"

text \<open>
  Slice expressions panic when a bound is out of range; \<open>None\<close> is the panic.
  \<^verbatim>\<open>s[:i]\<close> and \<^verbatim>\<open>s[j:]\<close> are in range when the bound is at most the length.
\<close>

definition slice_to :: "'a list \<Rightarrow> nat \<Rightarrow> 'a list option" where
  "slice_to s i = (if i \<le> length s then Some (take i s) else None)"

definition slice_from :: "'a list \<Rightarrow> nat \<Rightarrow> 'a list option" where
  "slice_from s j = (if j \<le> length s then Some (drop j s) else None)"

text \<open>
  \<^verbatim>\<open>RemoveItem\<close>: the \<^verbatim>\<open>range\<close> loop visits the indices from 0 upwards; at the first
  index whose item has the identifier it stores
  \<^verbatim>\<open>append(sl.Items[:i], sl.Items[i+1:]...)\<close> and breaks.
\<close>

function RemoveItem_loop :: "uuid \<Rightarrow> Item list \<Rightarrow> nat \<Rightarrow> Item list option" where
  "RemoveItem_loop itemID its i =
     (if i < length its then
        (if Item.ID (its ! i) = itemID then
           (case slice_to its i of
              None \<Rightarrow> None
            | Some front \<Rightarrow>
                (case slice_from its (i + 1) of
                   None \<Rightarrow> None
                 | Some rear \<Rightarrow> Some (front @ rear)))
         else RemoveItem_loop itemID its (Suc i))
      else Some its)"
  by pat_completeness auto
termination
  by (relation "measure (\<lambda>(itemID, its, i). length its - i)") auto

declare RemoveItem_loop.simps [simp del]

definition RemoveItem :: "ShoppingList \<Rightarrow> uuid \<Rightarrow> ShoppingList option" where
  "RemoveItem sl itemID =
     (case RemoveItem_loop itemID (Items sl) 0 of
        None \<Rightarrow> None
      | Some its \<Rightarrow> Some (sl\<lparr>Items := its\<rparr>))"

section \<open>Repository interfaces\<close>

text \<open>
  The two interfaces of \<^verbatim>\<open>repositories\<close>, as records of operations on a store of some type
  \<open>'s\<close>: every operation takes the store and returns the store it leaves. The
  \<^verbatim>\<open>context.Context\<close> argument carries nothing the code reads and is dropped.

  \<^verbatim>\<open>Create\<close> and \<^verbatim>\<open>Update\<close> receive a pointer to the entity and may write to it, so they
  return the entity as they leave it. \<^verbatim>\<open>GetByID\<close> returns a pointer and an error of which
  the callers read the pointer only when the error is nil: it is a sum. The operations
  that return a slice return it together with the error.
\<close>

record 's ShoppingListRepository =
  Create :: "'s \<Rightarrow> ShoppingList \<Rightarrow> error option \<times> ShoppingList \<times> 's"
  GetByID :: "'s \<Rightarrow> uuid \<Rightarrow> (error + ShoppingList) \<times> 's"
  GetAll :: "'s \<Rightarrow> (ShoppingList list \<times> error option) \<times> 's"
  Update :: "'s \<Rightarrow> ShoppingList \<Rightarrow> error option \<times> ShoppingList \<times> 's"
  Delete :: "'s \<Rightarrow> uuid \<Rightarrow> error option \<times> 's"

record 's ItemRepository =
  Create :: "'s \<Rightarrow> Item \<Rightarrow> error option \<times> Item \<times> 's"
  GetByID :: "'s \<Rightarrow> uuid \<Rightarrow> (error + Item) \<times> 's"
  GetByShoppingListID :: "'s \<Rightarrow> uuid \<Rightarrow> (Item list \<times> error option) \<times> 's"
  Update :: "'s \<Rightarrow> Item \<Rightarrow> error option \<times> Item \<times> 's"
  Delete :: "'s \<Rightarrow> uuid \<Rightarrow> error option \<times> 's"

section \<open>Persistence adapters\<close>

text \<open>
  The adapters hold a \<^verbatim>\<open>*gorm.DB\<close>. The ORM is a library outside the repository, so the
  handle is a record of the ten statements the adapters issue, each a function on a
  database of some type \<open>'db\<close>. A statement returns what the code reads of
  \<^verbatim>\<open>*gorm.DB\<close> afterwards (\<^verbatim>\<open>Error\<close> and \<^verbatim>\<open>RowsAffected\<close>), the destination it filled
  or the entity it was given (the ORM writes timestamps into it), and the database.
\<close>

record gorm_result =
  Error :: "gorm_error option"
  RowsAffected :: int

record 'db gorm_DB =
  Create_ShoppingList :: "'db \<Rightarrow> ShoppingList \<Rightarrow> gorm_result \<times> ShoppingList \<times> 'db"
  First_ShoppingList :: "'db \<Rightarrow> uuid \<Rightarrow> gorm_result \<times> ShoppingList \<times> 'db"
  Find_ShoppingLists :: "'db \<Rightarrow> gorm_result \<times> ShoppingList list \<times> 'db"
  Save_ShoppingList :: "'db \<Rightarrow> ShoppingList \<Rightarrow> gorm_result \<times> ShoppingList \<times> 'db"
  Delete_ShoppingList :: "'db \<Rightarrow> uuid \<Rightarrow> gorm_result \<times> 'db"
  Create_Item :: "'db \<Rightarrow> Item \<Rightarrow> gorm_result \<times> Item \<times> 'db"
  First_Item :: "'db \<Rightarrow> uuid \<Rightarrow> gorm_result \<times> Item \<times> 'db"
  Find_Items_of_list :: "'db \<Rightarrow> uuid \<Rightarrow> gorm_result \<times> Item list \<times> 'db"
  Save_Item :: "'db \<Rightarrow> Item \<Rightarrow> gorm_result \<times> Item \<times> 'db"
  Delete_Item :: "'db \<Rightarrow> uuid \<Rightarrow> gorm_result \<times> 'db"

text \<open>\<^verbatim>\<open>.Error\<close> read as a Go \<^verbatim>\<open>error\<close>: nil, or the ORM's error itself.\<close>

definition as_error :: "gorm_result \<Rightarrow> error option" where
  "as_error result = (case Error result of None \<Rightarrow> None | Some e \<Rightarrow> Some (GormError e))"

subsection \<open>PostgresShoppingListRepository\<close>

definition PostgresShoppingListRepository_Create ::
  "'db gorm_DB \<Rightarrow> 'db \<Rightarrow> ShoppingList \<Rightarrow> error option \<times> ShoppingList \<times> 'db" where
  "PostgresShoppingListRepository_Create r db list =
     (case Create_ShoppingList r db list of
        (result, list', db') \<Rightarrow> (as_error result, list', db'))"

definition PostgresShoppingListRepository_GetByID ::
  "'db gorm_DB \<Rightarrow> 'db \<Rightarrow> uuid \<Rightarrow> (error + ShoppingList) \<times> 'db" where
  "PostgresShoppingListRepository_GetByID r db id' =
     (case First_ShoppingList r db id' of
        (result, list, db') \<Rightarrow>
          (case Error result of
             Some err \<Rightarrow>
               if err = ErrRecordNotFound then (Inl ErrShoppingListNotFound, db')
               else (Inl (GormError err), db')
           | None \<Rightarrow> (Inr list, db')))"

definition PostgresShoppingListRepository_GetAll ::
  "'db gorm_DB \<Rightarrow> 'db \<Rightarrow> (ShoppingList list \<times> error option) \<times> 'db" where
  "PostgresShoppingListRepository_GetAll r db =
     (case Find_ShoppingLists r db of
        (result, found, db') \<Rightarrow> ((found, as_error result), db'))"

definition PostgresShoppingListRepository_Update ::
  "'db gorm_DB \<Rightarrow> 'db \<Rightarrow> ShoppingList \<Rightarrow> error option \<times> ShoppingList \<times> 'db" where
  "PostgresShoppingListRepository_Update r db list =
     (case Save_ShoppingList r db list of
        (result, list', db') \<Rightarrow> (as_error result, list', db'))"

definition PostgresShoppingListRepository_Delete ::
  "'db gorm_DB \<Rightarrow> 'db \<Rightarrow> uuid \<Rightarrow> error option \<times> 'db" where
  "PostgresShoppingListRepository_Delete r db id' =
     (case Delete_ShoppingList r db id' of
        (result, db') \<Rightarrow>
          if Error result \<noteq> None then (as_error result, db')
          else if RowsAffected result = 0 then (Some ErrShoppingListNotFound, db')
          else (None, db'))"

definition NewPostgresShoppingListRepository ::
  "'db gorm_DB \<Rightarrow> 'db ShoppingListRepository" where
  "NewPostgresShoppingListRepository db =
     \<lparr>ShoppingListRepository.Create = PostgresShoppingListRepository_Create db,
      GetByID = PostgresShoppingListRepository_GetByID db,
      GetAll = PostgresShoppingListRepository_GetAll db,
      Update = PostgresShoppingListRepository_Update db,
      Delete = PostgresShoppingListRepository_Delete db\<rparr>"

subsection \<open>PostgresItemRepository\<close>

definition PostgresItemRepository_Create ::
  "'db gorm_DB \<Rightarrow> 'db \<Rightarrow> Item \<Rightarrow> error option \<times> Item \<times> 'db" where
  "PostgresItemRepository_Create r db item =
     (case Create_Item r db item of
        (result, item', db') \<Rightarrow> (as_error result, item', db'))"

definition PostgresItemRepository_GetByID ::
  "'db gorm_DB \<Rightarrow> 'db \<Rightarrow> uuid \<Rightarrow> (error + Item) \<times> 'db" where
  "PostgresItemRepository_GetByID r db id' =
     (case First_Item r db id' of
        (result, item, db') \<Rightarrow>
          (case Error result of
             Some err \<Rightarrow>
               if err = ErrRecordNotFound then (Inl ErrItemNotFound, db')
               else (Inl (GormError err), db')
           | None \<Rightarrow> (Inr item, db')))"

definition PostgresItemRepository_GetByShoppingListID ::
  "'db gorm_DB \<Rightarrow> 'db \<Rightarrow> uuid \<Rightarrow> (Item list \<times> error option) \<times> 'db" where
  "PostgresItemRepository_GetByShoppingListID r db shoppingListID =
     (case Find_Items_of_list r db shoppingListID of
        (result, found, db') \<Rightarrow> ((found, as_error result), db'))"

definition PostgresItemRepository_Update ::
  "'db gorm_DB \<Rightarrow> 'db \<Rightarrow> Item \<Rightarrow> error option \<times> Item \<times> 'db" where
  "PostgresItemRepository_Update r db item =
     (case Save_Item r db item of
        (result, item', db') \<Rightarrow> (as_error result, item', db'))"

definition PostgresItemRepository_Delete ::
  "'db gorm_DB \<Rightarrow> 'db \<Rightarrow> uuid \<Rightarrow> error option \<times> 'db" where
  "PostgresItemRepository_Delete r db id' =
     (case Delete_Item r db id' of
        (result, db') \<Rightarrow>
          if Error result \<noteq> None then (as_error result, db')
          else if RowsAffected result = 0 then (Some ErrItemNotFound, db')
          else (None, db'))"

definition NewPostgresItemRepository :: "'db gorm_DB \<Rightarrow> 'db ItemRepository" where
  "NewPostgresItemRepository db =
     \<lparr>ItemRepository.Create = PostgresItemRepository_Create db,
      GetByID = PostgresItemRepository_GetByID db,
      GetByShoppingListID = PostgresItemRepository_GetByShoppingListID db,
      Update = PostgresItemRepository_Update db,
      Delete = PostgresItemRepository_Delete db\<rparr>"

section \<open>Application services\<close>

text \<open>
  What a service call can touch: the random source behind \<^verbatim>\<open>uuid.New()\<close> and the store
  behind the repositories.
\<close>

record 's world =
  rng :: uuid_gen
  store :: 's

text \<open>
  The loop \<^verbatim>\<open>for i, item := range items { list.Items[i] = *item }\<close> over a slice made with
  the length of \<^verbatim>\<open>items\<close>: it copies every element, in order.
\<close>

primrec copy_items :: "Item list \<Rightarrow> Item list" where
  "copy_items [] = []"
| "copy_items (item # rest) = item # copy_items rest"

subsection \<open>ShoppingListService\<close>

record 's ShoppingListService =
  shoppingListRepo :: "'s ShoppingListRepository"
  itemRepo :: "'s ItemRepository"

definition NewShoppingListService ::
  "'s ShoppingListRepository \<Rightarrow> 's ItemRepository \<Rightarrow> 's ShoppingListService" where
  "NewShoppingListService listRepo itRepo =
     \<lparr>ShoppingListService.shoppingListRepo = listRepo, itemRepo = itRepo\<rparr>"

definition CreateShoppingList ::
  "'s ShoppingListService \<Rightarrow> 's world \<Rightarrow> string \<Rightarrow> string
     \<Rightarrow> (error + ShoppingList) \<times> 's world" where
  "CreateShoppingList s w name description =
     (if name = [] then (Inl ErrInvalidInput, w)
      else
        (case NewShoppingList (rng w) name description of
           (list, g) \<Rightarrow>
             (case ShoppingListRepository.Create (ShoppingListService.shoppingListRepo s)
                     (store w) list of
                (Some err, list', st) \<Rightarrow> (Inl err, \<lparr>rng = g, store = st\<rparr>)
              | (None, list', st) \<Rightarrow> (Inr list', \<lparr>rng = g, store = st\<rparr>))))"

definition GetShoppingList ::
  "'s ShoppingListService \<Rightarrow> 's world \<Rightarrow> uuid \<Rightarrow> (error + ShoppingList) \<times> 's world" where
  "GetShoppingList s w id' =
     (case ShoppingListRepository.GetByID (ShoppingListService.shoppingListRepo s)
             (store w) id' of
        (Inl err, st) \<Rightarrow> (Inl err, w\<lparr>store := st\<rparr>)
      | (Inr list, st) \<Rightarrow>
          (case GetByShoppingListID (ShoppingListService.itemRepo s) st id' of
             ((its, Some err), st') \<Rightarrow> (Inl err, w\<lparr>store := st'\<rparr>)
           | ((its, None), st') \<Rightarrow>
               (Inr (list\<lparr>Items := copy_items its\<rparr>), w\<lparr>store := st'\<rparr>)))"

text \<open>The loop of \<^verbatim>\<open>GetAllShoppingLists\<close> over the lists, one item query per list; it
  returns at the first query that fails.\<close>

fun load_items ::
  "'s ItemRepository \<Rightarrow> 's \<Rightarrow> ShoppingList list \<Rightarrow> (error + ShoppingList list) \<times> 's" where
  "load_items r st [] = (Inr [], st)"
| "load_items r st (list # rest) =
     (case GetByShoppingListID r st (ShoppingList.ID list) of
        ((its, Some err), st') \<Rightarrow> (Inl err, st')
      | ((its, None), st') \<Rightarrow>
          (case load_items r st' rest of
             (Inl err, st'') \<Rightarrow> (Inl err, st'')
           | (Inr loaded, st'') \<Rightarrow> (Inr (list\<lparr>Items := copy_items its\<rparr> # loaded), st'')))"

definition GetAllShoppingLists ::
  "'s ShoppingListService \<Rightarrow> 's world \<Rightarrow> (error + ShoppingList list) \<times> 's world" where
  "GetAllShoppingLists s w =
     (case GetAll (ShoppingListService.shoppingListRepo s) (store w) of
        ((found, Some err), st) \<Rightarrow> (Inl err, w\<lparr>store := st\<rparr>)
      | ((found, None), st) \<Rightarrow>
          (case load_items (ShoppingListService.itemRepo s) st found of
             (res, st') \<Rightarrow> (res, w\<lparr>store := st'\<rparr>)))"

definition UpdateShoppingList ::
  "'s ShoppingListService \<Rightarrow> 's world \<Rightarrow> uuid \<Rightarrow> string \<Rightarrow> string
     \<Rightarrow> (error + ShoppingList) \<times> 's world" where
  "UpdateShoppingList s w id' name description =
     (if name = [] then (Inl ErrInvalidInput, w)
      else
        (case ShoppingListRepository.GetByID (ShoppingListService.shoppingListRepo s)
                (store w) id' of
           (Inl err, st) \<Rightarrow> (Inl err, w\<lparr>store := st\<rparr>)
         | (Inr list, st) \<Rightarrow>
             (case ShoppingListRepository.Update (ShoppingListService.shoppingListRepo s) st
                     (list\<lparr>ShoppingList.Name := name, Description := description\<rparr>) of
                (Some err, list', st') \<Rightarrow> (Inl err, w\<lparr>store := st'\<rparr>)
              | (None, list', st') \<Rightarrow> (Inr list', w\<lparr>store := st'\<rparr>))))"

definition DeleteShoppingList ::
  "'s ShoppingListService \<Rightarrow> 's world \<Rightarrow> uuid \<Rightarrow> error option \<times> 's world" where
  "DeleteShoppingList s w id' =
     (case ShoppingListRepository.Delete (ShoppingListService.shoppingListRepo s)
             (store w) id' of
        (err, st) \<Rightarrow> (err, w\<lparr>store := st\<rparr>))"

subsection \<open>ItemService\<close>

record 's ItemService =
  itemRepo :: "'s ItemRepository"
  shoppingListRepo :: "'s ShoppingListRepository"

definition NewItemService ::
  "'s ItemRepository \<Rightarrow> 's ShoppingListRepository \<Rightarrow> 's ItemService" where
  "NewItemService itRepo listRepo =
     \<lparr>ItemService.itemRepo = itRepo, shoppingListRepo = listRepo\<rparr>"

definition CreateItem ::
  "'s ItemService \<Rightarrow> 's world \<Rightarrow> uuid \<Rightarrow> string \<Rightarrow> int \<Rightarrow> (error + Item) \<times> 's world" where
  "CreateItem s w shoppingListID name quantity =
     (if name = [] then (Inl ErrInvalidInput, w)
      else
        (case ShoppingListRepository.GetByID (ItemService.shoppingListRepo s)
                (store w) shoppingListID of
           (Inl err, st) \<Rightarrow> (Inl ErrShoppingListNotFound, w\<lparr>store := st\<rparr>)
         | (Inr list, st) \<Rightarrow>
             (case NewItem (rng w) name quantity of
                (item, g) \<Rightarrow>
                  (case ItemRepository.Create (ItemService.itemRepo s) st
                          (item\<lparr>ShoppingListID := shoppingListID\<rparr>) of
                     (Some err, item', st') \<Rightarrow> (Inl err, \<lparr>rng = g, store = st'\<rparr>)
                   | (None, item', st') \<Rightarrow> (Inr item', \<lparr>rng = g, store = st'\<rparr>)))))"

definition GetItem ::
  "'s ItemService \<Rightarrow> 's world \<Rightarrow> uuid \<Rightarrow> (error + Item) \<times> 's world" where
  "GetItem s w id' =
     (case ItemRepository.GetByID (ItemService.itemRepo s) (store w) id' of
        (res, st) \<Rightarrow> (res, w\<lparr>store := st\<rparr>))"

definition GetItemsByShoppingListID ::
  "'s ItemService \<Rightarrow> 's world \<Rightarrow> uuid \<Rightarrow> (Item list \<times> error option) \<times> 's world" where
  "GetItemsByShoppingListID s w shoppingListID =
     (case GetByShoppingListID (ItemService.itemRepo s) (store w) shoppingListID of
        (res, st) \<Rightarrow> (res, w\<lparr>store := st\<rparr>))"

definition UpdateItem ::
  "'s ItemService \<Rightarrow> 's world \<Rightarrow> uuid \<Rightarrow> string \<Rightarrow> int \<Rightarrow> bool
     \<Rightarrow> (error + Item) \<times> 's world" where
  "UpdateItem s w id' name quantity completed =
     (if name = [] then (Inl ErrInvalidInput, w)
      else
        (case ItemRepository.GetByID (ItemService.itemRepo s) (store w) id' of
           (Inl err, st) \<Rightarrow> (Inl err, w\<lparr>store := st\<rparr>)
         | (Inr item, st) \<Rightarrow>
             (case ItemRepository.Update (ItemService.itemRepo s) st
                     (item\<lparr>Item.Name := name, Quantity := quantity,
                            Completed := completed\<rparr>) of
                (Some err, item', st') \<Rightarrow> (Inl err, w\<lparr>store := st'\<rparr>)
              | (None, item', st') \<Rightarrow> (Inr item', w\<lparr>store := st'\<rparr>))))"

definition DeleteItem ::
  "'s ItemService \<Rightarrow> 's world \<Rightarrow> uuid \<Rightarrow> error option \<times> 's world" where
  "DeleteItem s w id' =
     (case ItemRepository.Delete (ItemService.itemRepo s) (store w) id' of
        (err, st) \<Rightarrow> (err, w\<lparr>store := st\<rparr>))"

definition ToggleItemCompletion ::
  "'s ItemService \<Rightarrow> 's world \<Rightarrow> uuid \<Rightarrow> (error + Item) \<times> 's world" where
  "ToggleItemCompletion s w id' =
     (case ItemRepository.GetByID (ItemService.itemRepo s) (store w) id' of
        (Inl err, st) \<Rightarrow> (Inl err, w\<lparr>store := st\<rparr>)
      | (Inr item, st) \<Rightarrow>
          (case ItemRepository.Update (ItemService.itemRepo s) st
                  (if Completed item then MarkIncomplete item else MarkCompleted item) of
             (Some err, item', st') \<Rightarrow> (Inl err, w\<lparr>store := st'\<rparr>)
           | (None, item', st') \<Rightarrow> (Inr item', w\<lparr>store := st'\<rparr>)))"

section \<open>HTTP handlers\<close>

text \<open>
  The handlers depend on the service interfaces of \<^verbatim>\<open>interfaces.go\<close>: records of
  operations on a state of some type \<open>'w\<close>. The concrete services implement them.
\<close>

record 'w ItemServiceInterface =
  svc_CreateItem :: "'w \<Rightarrow> uuid \<Rightarrow> string \<Rightarrow> int \<Rightarrow> (error + Item) \<times> 'w"
  svc_GetItem :: "'w \<Rightarrow> uuid \<Rightarrow> (error + Item) \<times> 'w"
  svc_GetItemsByShoppingListID :: "'w \<Rightarrow> uuid \<Rightarrow> (Item list \<times> error option) \<times> 'w"
  svc_UpdateItem :: "'w \<Rightarrow> uuid \<Rightarrow> string \<Rightarrow> int \<Rightarrow> bool \<Rightarrow> (error + Item) \<times> 'w"
  svc_DeleteItem :: "'w \<Rightarrow> uuid \<Rightarrow> error option \<times> 'w"
  svc_ToggleItemCompletion :: "'w \<Rightarrow> uuid \<Rightarrow> (error + Item) \<times> 'w"

definition ItemService_interface :: "'s ItemService \<Rightarrow> 's world ItemServiceInterface" where
  "ItemService_interface s =
     \<lparr>svc_CreateItem = CreateItem s,
      svc_GetItem = GetItem s,
      svc_GetItemsByShoppingListID = GetItemsByShoppingListID s,
      svc_UpdateItem = UpdateItem s,
      svc_DeleteItem = DeleteItem s,
      svc_ToggleItemCompletion = ToggleItemCompletion s\<rparr>"

text \<open>
  A response is the status code and the JSON value given to \<^verbatim>\<open>c.JSON\<close>;
  \<open>JSON_error m\<close> is \<^verbatim>\<open>gin.H{"error": m}\<close>.
\<close>

datatype json =
    JSON_error string
  | JSON_item Item
  | JSON_items "Item list"
  | JSON_nil

record response =
  status :: nat
  body :: json

abbreviation StatusOK :: nat where "StatusOK \<equiv> 200"
abbreviation StatusCreated :: nat where "StatusCreated \<equiv> 201"
abbreviation StatusNoContent :: nat where "StatusNoContent \<equiv> 204"
abbreviation StatusBadRequest :: nat where "StatusBadRequest \<equiv> 400"
abbreviation StatusNotFound :: nat where "StatusNotFound \<equiv> 404"
abbreviation StatusInternalServerError :: nat where "StatusInternalServerError \<equiv> 500"

text \<open>
  Routing, \<^verbatim>\<open>uuid.Parse\<close> and the JSON binding belong to libraries. A handler is given
  their outcomes: \<open>param\<close> is the result of \<^verbatim>\<open>uuid.Parse\<close> on the path parameter
  (\<open>None\<close> when it returns an error), and \<open>bound\<close> is the result of
  \<^verbatim>\<open>c.ShouldBindJSON(&req)\<close>: the message of its error, or the request struct it
  decoded. A field missing from the JSON body keeps Go's zero value in the struct, 0 for
  \<^verbatim>\<open>Quantity\<close>.
\<close>

record CreateItemRequest =
  Name :: string
  Quantity :: int

record UpdateItemRequest =
  Name :: string
  Quantity :: int
  Completed :: bool

record 'req gin_Context =
  param :: "uuid option"
  bound :: "string + 'req"

record 'w ItemHandler =
  service :: "'w ItemServiceInterface"

definition NewItemHandler :: "'w ItemServiceInterface \<Rightarrow> 'w ItemHandler" where
  "NewItemHandler svc = \<lparr>service = svc\<rparr>"

definition ItemHandler_CreateItem ::
  "'w ItemHandler \<Rightarrow> 'w \<Rightarrow> CreateItemRequest gin_Context \<Rightarrow> response \<times> 'w" where
  "ItemHandler_CreateItem h w c =
     (case param c of
        None \<Rightarrow> (\<lparr>status = StatusBadRequest, body = JSON_error ''Invalid list ID format''\<rparr>, w)
      | Some listID \<Rightarrow>
          (case bound c of
             Inl msg \<Rightarrow> (\<lparr>status = StatusBadRequest, body = JSON_error msg\<rparr>, w)
           | Inr req0 \<Rightarrow>
               (let req = (if CreateItemRequest.Quantity req0 \<le> 0
                           then req0\<lparr>CreateItemRequest.Quantity := 1\<rparr> else req0)
                in case svc_CreateItem (service h) w listID (CreateItemRequest.Name req)
                          (CreateItemRequest.Quantity req) of
                     (Inl err, w') \<Rightarrow>
                       if err = ErrInvalidInput then
                         (\<lparr>status = StatusBadRequest, body = JSON_error (Error_msg err)\<rparr>, w')
                       else if err = ErrShoppingListNotFound then
                         (\<lparr>status = StatusNotFound,
                           body = JSON_error ''Shopping list not found''\<rparr>, w')
                       else
                         (\<lparr>status = StatusInternalServerError,
                           body = JSON_error ''Failed to create item''\<rparr>, w')
                   | (Inr item, w') \<Rightarrow>
                       (\<lparr>status = StatusCreated, body = JSON_item item\<rparr>, w'))))"

definition ItemHandler_GetItem ::
  "'w ItemHandler \<Rightarrow> 'w \<Rightarrow> unit gin_Context \<Rightarrow> response \<times> 'w" where
  "ItemHandler_GetItem h w c =
     (case param c of
        None \<Rightarrow> (\<lparr>status = StatusBadRequest, body = JSON_error ''Invalid ID format''\<rparr>, w)
      | Some id' \<Rightarrow>
          (case svc_GetItem (service h) w id' of
             (Inl err, w') \<Rightarrow>
               if err = ErrItemNotFound then
                 (\<lparr>status = StatusNotFound, body = JSON_error ''Item not found''\<rparr>, w')
               else
                 (\<lparr>status = StatusInternalServerError,
                   body = JSON_error ''Failed to retrieve item''\<rparr>, w')
           | (Inr item, w') \<Rightarrow> (\<lparr>status = StatusOK, body = JSON_item item\<rparr>, w')))"

definition ItemHandler_GetItemsByShoppingListID ::
  "'w ItemHandler \<Rightarrow> 'w \<Rightarrow> unit gin_Context \<Rightarrow> response \<times> 'w" where
  "ItemHandler_GetItemsByShoppingListID h w c =
     (case param c of
        None \<Rightarrow> (\<lparr>status = StatusBadRequest, body = JSON_error ''Invalid list ID format''\<rparr>, w)
      | Some listID \<Rightarrow>
          (case svc_GetItemsByShoppingListID (service h) w listID of
             ((its, Some err), w') \<Rightarrow>
               (\<lparr>status = StatusInternalServerError,
                 body = JSON_error ''Failed to retrieve items''\<rparr>, w')
           | ((its, None), w') \<Rightarrow> (\<lparr>status = StatusOK, body = JSON_items its\<rparr>, w')))"

definition ItemHandler_UpdateItem ::
  "'w ItemHandler \<Rightarrow> 'w \<Rightarrow> UpdateItemRequest gin_Context \<Rightarrow> response \<times> 'w" where
  "ItemHandler_UpdateItem h w c =
     (case param c of
        None \<Rightarrow> (\<lparr>status = StatusBadRequest, body = JSON_error ''Invalid ID format''\<rparr>, w)
      | Some id' \<Rightarrow>
          (case bound c of
             Inl msg \<Rightarrow> (\<lparr>status = StatusBadRequest, body = JSON_error msg\<rparr>, w)
           | Inr req0 \<Rightarrow>
               (let req = (if UpdateItemRequest.Quantity req0 \<le> 0
                           then req0\<lparr>UpdateItemRequest.Quantity := 1\<rparr> else req0)
                in case svc_UpdateItem (service h) w id' (UpdateItemRequest.Name req)
                          (UpdateItemRequest.Quantity req) (UpdateItemRequest.Completed req) of
                     (Inl err, w') \<Rightarrow>
                       if err = ErrItemNotFound then
                         (\<lparr>status = StatusNotFound, body = JSON_error ''Item not found''\<rparr>, w')
                       else if err = ErrInvalidInput then
                         (\<lparr>status = StatusBadRequest, body = JSON_error (Error_msg err)\<rparr>, w')
                       else
                         (\<lparr>status = StatusInternalServerError,
                           body = JSON_error ''Failed to update item''\<rparr>, w')
                   | (Inr item, w') \<Rightarrow> (\<lparr>status = StatusOK, body = JSON_item item\<rparr>, w'))))"

definition ItemHandler_DeleteItem ::
  "'w ItemHandler \<Rightarrow> 'w \<Rightarrow> unit gin_Context \<Rightarrow> response \<times> 'w" where
  "ItemHandler_DeleteItem h w c =
     (case param c of
        None \<Rightarrow> (\<lparr>status = StatusBadRequest, body = JSON_error ''Invalid ID format''\<rparr>, w)
      | Some id' \<Rightarrow>
          (case svc_DeleteItem (service h) w id' of
             (Some err, w') \<Rightarrow>
               if err = ErrItemNotFound then
                 (\<lparr>status = StatusNotFound, body = JSON_error ''Item not found''\<rparr>, w')
               else
                 (\<lparr>status = StatusInternalServerError,
                   body = JSON_error ''Failed to delete item''\<rparr>, w')
           | (None, w') \<Rightarrow> (\<lparr>status = StatusNoContent, body = JSON_nil\<rparr>, w')))"

definition ItemHandler_ToggleItemCompletion ::
  "'w ItemHandler \<Rightarrow> 'w \<Rightarrow> unit gin_Context \<Rightarrow> response \<times> 'w" where
  "ItemHandler_ToggleItemCompletion h w c =
     (case param c of
        None \<Rightarrow> (\<lparr>status = StatusBadRequest, body = JSON_error ''Invalid ID format''\<rparr>, w)
      | Some id' \<Rightarrow>
          (case svc_ToggleItemCompletion (service h) w id' of
             (Inl err, w') \<Rightarrow>
               if err = ErrItemNotFound then
                 (\<lparr>status = StatusNotFound, body = JSON_error ''Item not found''\<rparr>, w')
               else
                 (\<lparr>status = StatusInternalServerError,
                   body = JSON_error ''Failed to toggle item completion''\<rparr>, w')
           | (Inr item, w') \<Rightarrow> (\<lparr>status = StatusOK, body = JSON_item item\<rparr>, w')))"

section \<open>A reference database\<close>

text \<open>
  The ORM and the database are not part of the repository. To run the program on
  concrete inputs, and to state the properties that speak of stored rows, the ten
  statements get a reference semantics on two tables held in memory, after the database
  the repository's own persistence tests run on (SQLite in memory, where foreign keys are
  not enforced):
  \<^item> a table is the list of its rows, the primary key is the \<^verbatim>\<open>ID\<close> column, and
    \<^verbatim>\<open>Items\<close> is not a column of \<^verbatim>\<open>shopping_lists\<close>;
  \<^item> \<open>outage = Some m\<close> is a lost connection: every statement fails with the driver's
    error \<open>m\<close> and changes nothing;
  \<^item> \<^verbatim>\<open>Create\<close> inserts the row, filling the zero timestamps with the current time, and
    fails on a primary key already present;
  \<^item> \<^verbatim>\<open>Where("id = ?", id).First\<close> yields the row with the key, or
    \<^verbatim>\<open>ErrRecordNotFound\<close>;
  \<^item> \<^verbatim>\<open>Where("shopping_list_id = ?", id).Find\<close> yields the matching rows, in table order;
  \<^item> \<^verbatim>\<open>Save\<close> sets \<^verbatim>\<open>UpdatedAt\<close> to the current time and writes every column of the row
    with the entity's key, inserting the row when the key is absent;
  \<^item> \<^verbatim>\<open>Where("id = ?", id).Delete\<close> removes the rows with the key and reports how many.
  The lists the services hand to \<^verbatim>\<open>Create\<close> and \<^verbatim>\<open>Save\<close> have no items, so the
  ORM's saving of associations is left out.
\<close>

record db =
  shopping_lists :: "ShoppingList list"
  items_table :: "Item list"
  clock :: time
  outage :: "string option"

definition ok :: "int \<Rightarrow> gorm_result" where
  "ok n = \<lparr>Error = None, RowsAffected = n\<rparr>"

definition failed :: "gorm_error \<Rightarrow> gorm_result" where
  "failed e = \<lparr>Error = Some e, RowsAffected = 0\<rparr>"

definition zero_ShoppingList :: ShoppingList where
  "zero_ShoppingList =
     \<lparr>ShoppingList.ID = uuid_Nil, Name = [], Description = [], CreatedAt = 0,
      UpdatedAt = 0, Items = []\<rparr>"

definition zero_Item :: Item where
  "zero_Item =
     \<lparr>Item.ID = uuid_Nil, ShoppingListID = uuid_Nil, Name = [], Quantity = 0,
      Completed = False, CreatedAt = 0, UpdatedAt = 0\<rparr>"

definition auto_time :: "time \<Rightarrow> time \<Rightarrow> time" where
  "auto_time now t = (if t = 0 then now else t)"

definition mem_Create_ShoppingList ::
  "db \<Rightarrow> ShoppingList \<Rightarrow> gorm_result \<times> ShoppingList \<times> db" where
  "mem_Create_ShoppingList d list =
     (case outage d of
        Some m \<Rightarrow> (failed (DriverError m), list, d)
      | None \<Rightarrow>
          if \<exists>row \<in> set (shopping_lists d). ShoppingList.ID row = ShoppingList.ID list
          then (failed (DriverError ''duplicate key''), list, d)
          else
            (let list' = list\<lparr>ShoppingList.CreatedAt :=
                                 auto_time (clock d) (ShoppingList.CreatedAt list),
                               ShoppingList.UpdatedAt :=
                                 auto_time (clock d) (ShoppingList.UpdatedAt list)\<rparr>
             in (ok 1, list',
                 d\<lparr>shopping_lists := shopping_lists d @ [list'\<lparr>Items := []\<rparr>]\<rparr>)))"

definition mem_First_ShoppingList ::
  "db \<Rightarrow> uuid \<Rightarrow> gorm_result \<times> ShoppingList \<times> db" where
  "mem_First_ShoppingList d id' =
     (case outage d of
        Some m \<Rightarrow> (failed (DriverError m), zero_ShoppingList, d)
      | None \<Rightarrow>
          (case find (\<lambda>row. ShoppingList.ID row = id') (shopping_lists d) of
             None \<Rightarrow> (failed ErrRecordNotFound, zero_ShoppingList, d)
           | Some row \<Rightarrow> (ok 1, row, d)))"

definition mem_Find_ShoppingLists :: "db \<Rightarrow> gorm_result \<times> ShoppingList list \<times> db" where
  "mem_Find_ShoppingLists d =
     (case outage d of
        Some m \<Rightarrow> (failed (DriverError m), [], d)
      | None \<Rightarrow> (ok (int (length (shopping_lists d))), shopping_lists d, d))"

definition mem_Save_ShoppingList ::
  "db \<Rightarrow> ShoppingList \<Rightarrow> gorm_result \<times> ShoppingList \<times> db" where
  "mem_Save_ShoppingList d list =
     (case outage d of
        Some m \<Rightarrow> (failed (DriverError m), list, d)
      | None \<Rightarrow>
          if \<exists>row \<in> set (shopping_lists d). ShoppingList.ID row = ShoppingList.ID list
          then
            (let list' = list\<lparr>ShoppingList.UpdatedAt := clock d\<rparr>
             in (ok 1, list',
                 d\<lparr>shopping_lists :=
                      map (\<lambda>row. if ShoppingList.ID row = ShoppingList.ID list
                                 then list'\<lparr>Items := []\<rparr> else row)
                        (shopping_lists d)\<rparr>))
          else
            (let list' = list\<lparr>ShoppingList.CreatedAt :=
                                 auto_time (clock d) (ShoppingList.CreatedAt list),
                               ShoppingList.UpdatedAt := clock d\<rparr>
             in (ok 1, list',
                 d\<lparr>shopping_lists := shopping_lists d @ [list'\<lparr>Items := []\<rparr>]\<rparr>)))"

definition mem_Delete_ShoppingList :: "db \<Rightarrow> uuid \<Rightarrow> gorm_result \<times> db" where
  "mem_Delete_ShoppingList d id' =
     (case outage d of
        Some m \<Rightarrow> (failed (DriverError m), d)
      | None \<Rightarrow>
          (ok (int (length (filter (\<lambda>row. ShoppingList.ID row = id') (shopping_lists d)))),
           d\<lparr>shopping_lists :=
                filter (\<lambda>row. ShoppingList.ID row \<noteq> id') (shopping_lists d)\<rparr>))"

definition mem_Create_Item :: "db \<Rightarrow> Item \<Rightarrow> gorm_result \<times> Item \<times> db" where
  "mem_Create_Item d item =
     (case outage d of
        Some m \<Rightarrow> (failed (DriverError m), item, d)
      | None \<Rightarrow>
          if \<exists>row \<in> set (items_table d). Item.ID row = Item.ID item
          then (failed (DriverError ''duplicate key''), item, d)
          else
            (let item' = item\<lparr>Item.CreatedAt := auto_time (clock d) (Item.CreatedAt item),
                               Item.UpdatedAt := auto_time (clock d) (Item.UpdatedAt item)\<rparr>
             in (ok 1, item', d\<lparr>items_table := items_table d @ [item']\<rparr>)))"

definition mem_First_Item :: "db \<Rightarrow> uuid \<Rightarrow> gorm_result \<times> Item \<times> db" where
  "mem_First_Item d id' =
     (case outage d of
        Some m \<Rightarrow> (failed (DriverError m), zero_Item, d)
      | None \<Rightarrow>
          (case find (\<lambda>row. Item.ID row = id') (items_table d) of
             None \<Rightarrow> (failed ErrRecordNotFound, zero_Item, d)
           | Some row \<Rightarrow> (ok 1, row, d)))"

definition mem_Find_Items_of_list :: "db \<Rightarrow> uuid \<Rightarrow> gorm_result \<times> Item list \<times> db" where
  "mem_Find_Items_of_list d shoppingListID =
     (case outage d of
        Some m \<Rightarrow> (failed (DriverError m), [], d)
      | None \<Rightarrow>
          (let found = filter (\<lambda>row. ShoppingListID row = shoppingListID) (items_table d)
           in (ok (int (length found)), found, d)))"

definition mem_Save_Item :: "db \<Rightarrow> Item \<Rightarrow> gorm_result \<times> Item \<times> db" where
  "mem_Save_Item d item =
     (case outage d of
        Some m \<Rightarrow> (failed (DriverError m), item, d)
      | None \<Rightarrow>
          if \<exists>row \<in> set (items_table d). Item.ID row = Item.ID item
          then
            (let item' = item\<lparr>Item.UpdatedAt := clock d\<rparr>
             in (ok 1, item',
                 d\<lparr>items_table :=
                      map (\<lambda>row. if Item.ID row = Item.ID item then item' else row)
                        (items_table d)\<rparr>))
          else
            (let item' = item\<lparr>Item.CreatedAt := auto_time (clock d) (Item.CreatedAt item),
                               Item.UpdatedAt := clock d\<rparr>
             in (ok 1, item', d\<lparr>items_table := items_table d @ [item']\<rparr>)))"

definition mem_Delete_Item :: "db \<Rightarrow> uuid \<Rightarrow> gorm_result \<times> db" where
  "mem_Delete_Item d id' =
     (case outage d of
        Some m \<Rightarrow> (failed (DriverError m), d)
      | None \<Rightarrow>
          (ok (int (length (filter (\<lambda>row. Item.ID row = id') (items_table d)))),
           d\<lparr>items_table := filter (\<lambda>row. Item.ID row \<noteq> id') (items_table d)\<rparr>))"

definition mem_gorm :: "db gorm_DB" where
  "mem_gorm =
     \<lparr>Create_ShoppingList = mem_Create_ShoppingList,
      First_ShoppingList = mem_First_ShoppingList,
      Find_ShoppingLists = mem_Find_ShoppingLists,
      Save_ShoppingList = mem_Save_ShoppingList,
      Delete_ShoppingList = mem_Delete_ShoppingList,
      Create_Item = mem_Create_Item,
      First_Item = mem_First_Item,
      Find_Items_of_list = mem_Find_Items_of_list,
      Save_Item = mem_Save_Item,
      Delete_Item = mem_Delete_Item\<rparr>"

text \<open>The wiring of \<^verbatim>\<open>main\<close>, on the reference database.\<close>

definition shoppingListService :: "db ShoppingListService" where
  "shoppingListService =
     NewShoppingListService (NewPostgresShoppingListRepository mem_gorm)
       (NewPostgresItemRepository mem_gorm)"

definition itemService :: "db ItemService" where
  "itemService =
     NewItemService (NewPostgresItemRepository mem_gorm)
       (NewPostgresShoppingListRepository mem_gorm)"

definition itemHandler :: "db world ItemHandler" where
  "itemHandler = NewItemHandler (ItemService_interface itemService)"

section \<open>Test doubles and example data\<close>

text \<open>
  A recording double of the item service, after \<^verbatim>\<open>MockItemService\<close> of the handler
  tests: its state is the list of the calls it received, and every call returns a canned
  result.
\<close>

datatype call =
    Call_CreateItem uuid string int
  | Call_GetItem uuid
  | Call_GetItemsByShoppingListID uuid
  | Call_UpdateItem uuid string int bool
  | Call_DeleteItem uuid
  | Call_ToggleItemCompletion uuid

definition MockItemService :: "(error + Item) \<Rightarrow> call list ItemServiceInterface" where
  "MockItemService res =
     \<lparr>svc_CreateItem = (\<lambda>calls listID name quantity.
        (res, calls @ [Call_CreateItem listID name quantity])),
      svc_GetItem = (\<lambda>calls id'. (res, calls @ [Call_GetItem id'])),
      svc_GetItemsByShoppingListID = (\<lambda>calls listID.
        (([], None), calls @ [Call_GetItemsByShoppingListID listID])),
      svc_UpdateItem = (\<lambda>calls id' name quantity completed.
        (res, calls @ [Call_UpdateItem id' name quantity completed])),
      svc_DeleteItem = (\<lambda>calls id'. (None, calls @ [Call_DeleteItem id'])),
      svc_ToggleItemCompletion = (\<lambda>calls id'.
        (res, calls @ [Call_ToggleItemCompletion id']))\<rparr>"

definition milk :: Item where
  "milk = \<lparr>Item.ID = 1, ShoppingListID = 7, Name = ''Milk'', Quantity = 2,
            Completed = False, CreatedAt = 10, UpdatedAt = 10\<rparr>"

definition bread :: Item where
  "bread = \<lparr>Item.ID = 2, ShoppingListID = 7, Name = ''Bread'', Quantity = 1,
             Completed = False, CreatedAt = 11, UpdatedAt = 11\<rparr>"

definition eggs :: Item where
  "eggs = \<lparr>Item.ID = 3, ShoppingListID = 8, Name = ''Eggs'', Quantity = 12,
            Completed = True, CreatedAt = 12, UpdatedAt = 12\<rparr>"

definition groceries :: ShoppingList where
  "groceries = \<lparr>ShoppingList.ID = 7, Name = ''Groceries'', Description = ''weekly'',
                 CreatedAt = 5, UpdatedAt = 5, Items = []\<rparr>"

definition basket :: ShoppingList where
  "basket = groceries\<lparr>Items := [milk, bread, eggs, bread]\<rparr>"

definition shop :: db where
  "shop = \<lparr>shopping_lists = [groceries], items_table = [milk, bread, eggs],
            clock = 100, outage = None\<rparr>"

definition offline :: db where
  "offline = shop\<lparr>outage := Some ''connection refused''\<rparr>"

definition ids :: uuid_gen where
  "ids = \<lparr>stream = (\<lambda>n. 1000 + n), pos = 0\<rparr>"

section \<open>Properties of the entities\<close>

lemma subseq_tl: "subseq (tl xs) xs"
  by (cases xs) (simp_all add: list_emb_Cons)

lemma RemoveItem_loop_eq:
  "i \<le> length its \<Longrightarrow>
   RemoveItem_loop itemID its i =
     Some (take i its @ takeWhile (\<lambda>x. Item.ID x \<noteq> itemID) (drop i its)
           @ tl (dropWhile (\<lambda>x. Item.ID x \<noteq> itemID) (drop i its)))"
proof (induction itemID its i rule: RemoveItem_loop.induct)
  case (1 itemID its i)
  show ?case
  proof (cases "i < length its")
    case False
    then have "RemoveItem_loop itemID its i = Some its"
      by (simp add: RemoveItem_loop.simps [of itemID its i])
    with False show ?thesis
      by simp
  next
    case True
    then have d: "drop i its = its ! i # drop (Suc i) its"
      by (simp add: Cons_nth_drop_Suc)
    show ?thesis
    proof (cases "Item.ID (its ! i) = itemID")
      case True
      with \<open>i < length its\<close> d show ?thesis
        by (simp add: RemoveItem_loop.simps [of itemID its i] slice_to_def slice_from_def)
    next
      case False
      with \<open>i < length its\<close> have
        "RemoveItem_loop itemID its i = RemoveItem_loop itemID its (Suc i)"
        by (simp add: RemoveItem_loop.simps [of itemID its i])
      also have "\<dots> = Some (take (Suc i) its
           @ takeWhile (\<lambda>x. Item.ID x \<noteq> itemID) (drop (Suc i) its)
           @ tl (dropWhile (\<lambda>x. Item.ID x \<noteq> itemID) (drop (Suc i) its)))"
        using "1.IH" [OF \<open>i < length its\<close> False] \<open>i < length its\<close> by simp
      also have "\<dots> = Some (take i its
           @ takeWhile (\<lambda>x. Item.ID x \<noteq> itemID) (drop i its)
           @ tl (dropWhile (\<lambda>x. Item.ID x \<noteq> itemID) (drop i its)))"
        using False \<open>i < length its\<close> d by (simp add: take_Suc_conv_app_nth)
      finally show ?thesis .
    qed
  qed
qed

lemma RemoveItem_eq:
  "RemoveItem sl itemID =
     Some (sl\<lparr>Items := takeWhile (\<lambda>x. Item.ID x \<noteq> itemID) (Items sl)
                        @ tl (dropWhile (\<lambda>x. Item.ID x \<noteq> itemID) (Items sl))\<rparr>)"
  by (simp add: RemoveItem_def RemoveItem_loop_eq)

text \<open>
  C9. \<^verbatim>\<open>ShoppingList.RemoveItem\<close> never panics. When no item carries the identifier the
  list is returned as it was. Otherwise the items split as \<open>front @ x # rear\<close> where
  \<open>x\<close> is the first item with the identifier, and the result holds \<open>front @ rear\<close>:
  exactly that one item is gone, every other item stays, in the same order. No other
  field of the list changes.
\<close>

theorem RemoveItem_removes_first_match_only:
  "\<exists>sl'. RemoveItem sl itemID = Some sl'
     \<and> sl' = sl\<lparr>Items := Items sl'\<rparr>
     \<and> subseq (Items sl') (Items sl)
     \<and> (if \<exists>x \<in> set (Items sl). Item.ID x = itemID
        then \<exists>front x rear.
               Items sl = front @ x # rear
             \<and> (\<forall>y \<in> set front. Item.ID y \<noteq> itemID)
             \<and> Item.ID x = itemID
             \<and> Items sl' = front @ rear
        else sl' = sl)"
proof -
  let ?P = "\<lambda>x. Item.ID x \<noteq> itemID"
  let ?front = "takeWhile ?P (Items sl)"
  let ?rest = "dropWhile ?P (Items sl)"
  let ?sl' = "sl\<lparr>Items := ?front @ tl ?rest\<rparr>"
  have r: "RemoveItem sl itemID = Some ?sl'"
    by (rule RemoveItem_eq)
  have f: "?sl' = sl\<lparr>Items := Items ?sl'\<rparr>"
    by simp
  have "subseq (?front @ tl ?rest) (?front @ ?rest)"
    by (intro list_emb_append_mono subseq_order.order_refl subseq_tl)
  then have s: "subseq (Items ?sl') (Items sl)"
    by simp
  have c: "if \<exists>x \<in> set (Items sl). Item.ID x = itemID
        then \<exists>front x rear.
               Items sl = front @ x # rear
             \<and> (\<forall>y \<in> set front. Item.ID y \<noteq> itemID)
             \<and> Item.ID x = itemID
             \<and> Items ?sl' = front @ rear
        else ?sl' = sl"
  proof (cases "\<exists>x \<in> set (Items sl). Item.ID x = itemID")
    case True
    then have ne: "?rest \<noteq> []"
      by auto
    then obtain x rear where xb: "?rest = x # rear"
      by (cases ?rest) auto
    have "Items sl = ?front @ ?rest"
      by simp
    with xb have split: "Items sl = ?front @ x # rear"
      by simp
    have hdx: "\<not> ?P (hd ?rest)"
      using ne by (rule hd_dropWhile)
    with xb have idx: "Item.ID x = itemID"
      by simp
    have fr: "\<forall>y \<in> set ?front. Item.ID y \<noteq> itemID"
      by (auto dest: set_takeWhileD)
    have "Items ?sl' = ?front @ rear"
      using xb by simp
    with split idx fr True show ?thesis
      by (simp only: if_True) blast
  next
    case False
    then have all: "\<forall>x \<in> set (Items sl). ?P x"
      by blast
    then have tw: "?front = Items sl"
      by (simp add: takeWhile_eq_all_conv)
    from all have dw: "?rest = []"
      by simp
    show ?thesis
      unfolding tw dw using False by simp
  qed
  show ?thesis
  proof (intro exI conjI)
    show "RemoveItem sl itemID = Some ?sl'" by (rule r)
    show "?sl' = sl\<lparr>Items := Items ?sl'\<rparr>" by (rule f)
    show "subseq (Items ?sl') (Items sl)" by (rule s)
    show "if \<exists>x \<in> set (Items sl). Item.ID x = itemID
        then \<exists>front x rear.
               Items sl = front @ x # rear
             \<and> (\<forall>y \<in> set front. Item.ID y \<noteq> itemID)
             \<and> Item.ID x = itemID
             \<and> Items ?sl' = front @ rear
        else ?sl' = sl" by (rule c)
  qed
qed

theorem RemoveItem_removes_first_match_only_witness:
  "(\<exists>x \<in> set (Items basket). Item.ID x = 2)
   \<and> (\<exists>sl'. RemoveItem basket 2 = Some sl'
        \<and> (\<exists>front x rear. Items basket = front @ x # rear
             \<and> (\<forall>y \<in> set front. Item.ID y \<noteq> 2) \<and> Item.ID x = 2
             \<and> Items sl' = front @ rear))
   \<and> RemoveItem basket 2 = Some (basket\<lparr>Items := [milk, eggs, bread]\<rparr>)"
proof -
  have c: "\<exists>x \<in> set (Items basket). Item.ID x = 2"
    by (simp add: basket_def bread_def)
  have e: "RemoveItem basket 2 = Some (basket\<lparr>Items := [milk, eggs, bread]\<rparr>)"
    by (simp add: RemoveItem_eq basket_def groceries_def milk_def bread_def eggs_def)
  from RemoveItem_removes_first_match_only [of basket 2] c e show ?thesis
    by (simp only: if_True) blast
qed

section \<open>Properties of the services\<close>

text \<open>
  C3. \<^verbatim>\<open>CreateShoppingList\<close> with the empty name fails with \<^verbatim>\<open>ErrInvalidInput\<close> and
  leaves the random source and the store as they were. The service \<open>s\<close> is arbitrary, so
  this holds whatever its repositories do when called: none of them is called.
\<close>

theorem CreateShoppingList_empty_name_no_write:
  "CreateShoppingList s w [] description = (Inl ErrInvalidInput, w)"
  by (simp add: CreateShoppingList_def)

lemma itemService_lookup_absent:
  assumes "outage d = None"
    and "\<forall>row \<in> set (shopping_lists d). ShoppingList.ID row \<noteq> listID"
  shows "ShoppingListRepository.GetByID (ItemService.shoppingListRepo itemService) d listID
           = (Inl ErrShoppingListNotFound, d)"
proof -
  from assms(2) have "find (\<lambda>row. ShoppingList.ID row = listID) (shopping_lists d) = None"
    by (simp add: find_None_iff)
  with assms(1) show ?thesis
    by (simp add: itemService_def NewItemService_def NewPostgresShoppingListRepository_def
        PostgresShoppingListRepository_GetByID_def mem_gorm_def mem_First_ShoppingList_def
        failed_def)
qed

text \<open>
  C1. \<^verbatim>\<open>ItemService.CreateItem\<close>: with the empty name it fails with
  \<^verbatim>\<open>ErrInvalidInput\<close> and touches nothing. With a name, when the lookup of the parent
  list returns an error, it fails with \<^verbatim>\<open>ErrShoppingListNotFound\<close>, and the store is the
  one the lookup left and the random source is unread: for every item repository, so its
  \<^verbatim>\<open>Create\<close> has not run and no item was made. On the reference database: when it is
  reachable and holds no list with the identifier, the call fails with
  \<^verbatim>\<open>ErrShoppingListNotFound\<close> and the whole state, the items table included, is unchanged.
\<close>

theorem CreateItem_checks_before_writing:
  "CreateItem s w shoppingListID [] quantity = (Inl ErrInvalidInput, w)
   \<and> (name \<noteq> [] \<longrightarrow>
        ShoppingListRepository.GetByID (ItemService.shoppingListRepo s) (store w)
          shoppingListID = (Inl err, st) \<longrightarrow>
        CreateItem s w shoppingListID name quantity
          = (Inl ErrShoppingListNotFound, w\<lparr>store := st\<rparr>))
   \<and> (name \<noteq> [] \<longrightarrow> outage (store w) = None \<longrightarrow>
        (\<forall>row \<in> set (shopping_lists (store w)). ShoppingList.ID row \<noteq> shoppingListID) \<longrightarrow>
        CreateItem itemService w shoppingListID name quantity
          = (Inl ErrShoppingListNotFound, w))"
proof (intro conjI impI)
  show "CreateItem s w shoppingListID [] quantity = (Inl ErrInvalidInput, w)"
    by (simp add: CreateItem_def)
next
  assume "name \<noteq> []"
    and "ShoppingListRepository.GetByID (ItemService.shoppingListRepo s) (store w)
          shoppingListID = (Inl err, st)"
  then show "CreateItem s w shoppingListID name quantity
          = (Inl ErrShoppingListNotFound, w\<lparr>store := st\<rparr>)"
    by (simp add: CreateItem_def)
next
  assume n: "name \<noteq> []" and h: "outage (store w) = None"
    and a: "\<forall>row \<in> set (shopping_lists (store w)). ShoppingList.ID row \<noteq> shoppingListID"
  from h a have "ShoppingListRepository.GetByID (ItemService.shoppingListRepo itemService)
               (store w) shoppingListID = (Inl ErrShoppingListNotFound, store w)"
    by (rule itemService_lookup_absent)
  with n show "CreateItem itemService w shoppingListID name quantity
          = (Inl ErrShoppingListNotFound, w)"
    by (simp add: CreateItem_def)
qed

theorem CreateItem_checks_before_writing_witness:
  "''Milk'' \<noteq> []
   \<and> outage (store \<lparr>rng = ids, store = shop\<rparr>) = None
   \<and> find (\<lambda>row. ShoppingList.ID row = 9)
        (shopping_lists (store \<lparr>rng = ids, store = shop\<rparr>)) = None
   \<and> ShoppingListRepository.GetByID (ItemService.shoppingListRepo itemService)
        (store \<lparr>rng = ids, store = shop\<rparr>) 9 = (Inl ErrShoppingListNotFound, shop)
   \<and> CreateItem itemService \<lparr>rng = ids, store = shop\<rparr> 9 ''Milk'' 2
        = (Inl ErrShoppingListNotFound, \<lparr>rng = ids, store = shop\<rparr>)
   \<and> CreateItem itemService \<lparr>rng = ids, store = shop\<rparr> 7 [] 2
        = (Inl ErrInvalidInput, \<lparr>rng = ids, store = shop\<rparr>)"
proof -
  have h1: "outage (store \<lparr>rng = ids, store = shop\<rparr>) = None"
    by (simp add: shop_def)
  have h2: "\<forall>row \<in> set (shopping_lists (store \<lparr>rng = ids, store = shop\<rparr>)).
         ShoppingList.ID row \<noteq> 9"
    by (simp add: shop_def groceries_def)
  have h3: "ShoppingListRepository.GetByID (ItemService.shoppingListRepo itemService)
        (store \<lparr>rng = ids, store = shop\<rparr>) 9 = (Inl ErrShoppingListNotFound, shop)"
    by (simp add: itemService_def NewItemService_def NewPostgresShoppingListRepository_def
        PostgresShoppingListRepository_GetByID_def mem_gorm_def mem_First_ShoppingList_def
        failed_def shop_def groceries_def)
  have h4: "find (\<lambda>row. ShoppingList.ID row = 9)
        (shopping_lists (store \<lparr>rng = ids, store = shop\<rparr>)) = None"
    by (simp add: shop_def groceries_def)
  from h1 h2 h3 h4
    CreateItem_checks_before_writing
      [of itemService "\<lparr>rng = ids, store = shop\<rparr>" 9 2 "''Milk''"
          ErrShoppingListNotFound shop]
    CreateItem_checks_before_writing
      [of itemService "\<lparr>rng = ids, store = shop\<rparr>" 7 2 "''Milk''"
          ErrShoppingListNotFound shop]
  show ?thesis
    by simp
qed

section \<open>Properties of the persistence adapters\<close>

text \<open>
  C7. Both \<^verbatim>\<open>Delete\<close> adapters, for any ORM handle and any result of the delete statement:
  the domain not-found error is returned exactly when the statement reports no error and
  zero affected rows; an error of the statement is returned as it is; with no error and
  at least one affected row the result is nil. The database is the one the statement left.
\<close>

theorem Delete_NotFound_iff_zero_rows:
  "(Delete_ShoppingList r d id' = (result, d') \<longrightarrow>
      (fst (PostgresShoppingListRepository_Delete r d id') = Some ErrShoppingListNotFound
         \<longleftrightarrow> Error result = None \<and> RowsAffected result = 0)
    \<and> (\<forall>e. Error result = Some e \<longrightarrow>
           fst (PostgresShoppingListRepository_Delete r d id') = Some (GormError e))
    \<and> (Error result = None \<and> 1 \<le> RowsAffected result \<longrightarrow>
           fst (PostgresShoppingListRepository_Delete r d id') = None)
    \<and> snd (PostgresShoppingListRepository_Delete r d id') = d')
   \<and> (Delete_Item r d id' = (result, d') \<longrightarrow>
      (fst (PostgresItemRepository_Delete r d id') = Some ErrItemNotFound
         \<longleftrightarrow> Error result = None \<and> RowsAffected result = 0)
    \<and> (\<forall>e. Error result = Some e \<longrightarrow>
           fst (PostgresItemRepository_Delete r d id') = Some (GormError e))
    \<and> (Error result = None \<and> 1 \<le> RowsAffected result \<longrightarrow>
           fst (PostgresItemRepository_Delete r d id') = None)
    \<and> snd (PostgresItemRepository_Delete r d id') = d')"
  by (auto simp: PostgresShoppingListRepository_Delete_def PostgresItemRepository_Delete_def
      as_error_def split: option.splits)

theorem Delete_NotFound_iff_zero_rows_witness:
  "Delete_ShoppingList mem_gorm shop 9 = (ok 0, shop)
   \<and> PostgresShoppingListRepository_Delete mem_gorm shop 9 = (Some ErrShoppingListNotFound, shop)
   \<and> Delete_Item mem_gorm shop 2 = (ok 1, shop\<lparr>items_table := [milk, eggs]\<rparr>)
   \<and> PostgresItemRepository_Delete mem_gorm shop 2 = (None, shop\<lparr>items_table := [milk, eggs]\<rparr>)
   \<and> Delete_Item mem_gorm offline 2 = (failed (DriverError ''connection refused''), offline)
   \<and> PostgresItemRepository_Delete mem_gorm offline 2
       = (Some (GormError (DriverError ''connection refused'')), offline)"
proof -
  have a: "Delete_ShoppingList mem_gorm shop 9 = (ok 0, shop)"
    by (simp add: mem_gorm_def mem_Delete_ShoppingList_def shop_def groceries_def)
  have b: "Delete_Item mem_gorm shop 2 = (ok 1, shop\<lparr>items_table := [milk, eggs]\<rparr>)"
    by (simp add: mem_gorm_def mem_Delete_Item_def shop_def milk_def bread_def eggs_def)
  have c: "Delete_Item mem_gorm offline 2 = (failed (DriverError ''connection refused''), offline)"
    by (simp add: mem_gorm_def mem_Delete_Item_def offline_def)
  from a b c
    Delete_NotFound_iff_zero_rows [of mem_gorm shop 9 "ok 0" shop]
    Delete_NotFound_iff_zero_rows [of mem_gorm shop 2 "ok 1" "shop\<lparr>items_table := [milk, eggs]\<rparr>"]
    Delete_NotFound_iff_zero_rows [of mem_gorm offline 2 "failed (DriverError ''connection refused'')" offline]
  show ?thesis
    by (simp add: ok_def failed_def prod_eq_iff)
qed

section \<open>Properties of the HTTP handlers\<close>

text \<open>
  C6. The item-create and item-update handlers, run on the recording double of the
  service, with a well-formed identifier and a decoded body: the service receives exactly
  one call, whose quantity is 1 when the decoded quantity is at most 0 (an omitted field
  decodes to 0) and the decoded quantity otherwise; the other arguments are the decoded
  ones.
\<close>

theorem handlers_normalize_quantity:
  "(param c = Some listID \<longrightarrow> bound c = Inr req \<longrightarrow>
     snd (ItemHandler_CreateItem (NewItemHandler (MockItemService res)) calls c)
       = calls @ [Call_CreateItem listID (CreateItemRequest.Name req)
                    (if CreateItemRequest.Quantity req \<le> 0 then 1
                     else CreateItemRequest.Quantity req)])
   \<and> (param c' = Some id' \<longrightarrow> bound c' = Inr req' \<longrightarrow>
     snd (ItemHandler_UpdateItem (NewItemHandler (MockItemService res)) calls c')
       = calls @ [Call_UpdateItem id' (UpdateItemRequest.Name req')
                    (if UpdateItemRequest.Quantity req' \<le> 0 then 1
                     else UpdateItemRequest.Quantity req')
                    (UpdateItemRequest.Completed req')])"
  by (auto simp: ItemHandler_CreateItem_def ItemHandler_UpdateItem_def NewItemHandler_def
      MockItemService_def Let_def split: sum.splits)

theorem handlers_normalize_quantity_witness:
  "snd (ItemHandler_CreateItem (NewItemHandler (MockItemService (Inr milk))) []
          \<lparr>param = Some 7,
           bound = Inr \<lparr>CreateItemRequest.Name = ''Bread'', Quantity = 0\<rparr>\<rparr>)
     = [Call_CreateItem 7 ''Bread'' 1]
   \<and> snd (ItemHandler_UpdateItem (NewItemHandler (MockItemService (Inr milk))) []
          \<lparr>param = Some 3,
           bound = Inr \<lparr>UpdateItemRequest.Name = ''Eggs'', Quantity = - 5,
                        Completed = True\<rparr>\<rparr>)
     = [Call_UpdateItem 3 ''Eggs'' 1 True]"
  using handlers_normalize_quantity
    [of "\<lparr>param = Some 7,
           bound = Inr \<lparr>CreateItemRequest.Name = ''Bread'', Quantity = 0\<rparr>\<rparr>"
        7 "\<lparr>CreateItemRequest.Name = ''Bread'', Quantity = 0\<rparr>" "Inr milk" "[]"
        "\<lparr>param = Some 3,
           bound = Inr \<lparr>UpdateItemRequest.Name = ''Eggs'', Quantity = - 5,
                        Completed = True\<rparr>\<rparr>"
        3 "\<lparr>UpdateItemRequest.Name = ''Eggs'', Quantity = - 5, Completed = True\<rparr>"]
  by simp

text \<open>
  C2. The database is unreachable and holds list 7. The lookup of the parent list returns
  the driver's error, \<^verbatim>\<open>ItemService.CreateItem\<close> replaces it by
  \<^verbatim>\<open>ErrShoppingListNotFound\<close>, and the create handler answers 404 "Shopping list not
  found". The update handler, under the same outage, answers 500.
\<close>

theorem CreateItem_reports_outage_as_not_found:
  "find (\<lambda>row. ShoppingList.ID row = 7) (shopping_lists offline) = Some groceries
   \<and> ShoppingListRepository.GetByID (ItemService.shoppingListRepo itemService) offline 7
       = (Inl (GormError (DriverError ''connection refused'')), offline)
   \<and> fst (CreateItem itemService \<lparr>rng = ids, store = offline\<rparr> 7 ''Milk'' 2)
       = Inl ErrShoppingListNotFound
   \<and> fst (ItemHandler_CreateItem itemHandler \<lparr>rng = ids, store = offline\<rparr>
            \<lparr>param = Some 7,
             bound = Inr \<lparr>CreateItemRequest.Name = ''Milk'', Quantity = 2\<rparr>\<rparr>)
       = \<lparr>status = 404, body = JSON_error ''Shopping list not found''\<rparr>
   \<and> fst (ItemHandler_UpdateItem itemHandler \<lparr>rng = ids, store = offline\<rparr>
            \<lparr>param = Some 1,
             bound = Inr \<lparr>UpdateItemRequest.Name = ''Milk'', Quantity = 2,
                          Completed = True\<rparr>\<rparr>)
       = \<lparr>status = 500, body = JSON_error ''Failed to update item''\<rparr>"
  by (simp add: itemHandler_def NewItemHandler_def ItemService_interface_def
      ItemHandler_CreateItem_def ItemHandler_UpdateItem_def CreateItem_def UpdateItem_def
      itemService_def NewItemService_def NewPostgresShoppingListRepository_def
      NewPostgresItemRepository_def PostgresShoppingListRepository_GetByID_def
      PostgresItemRepository_GetByID_def mem_gorm_def mem_First_ShoppingList_def
      mem_First_Item_def failed_def offline_def shop_def groceries_def)

end
